theory Spec2Isabelle
  imports Main "HOL-Library.AList"
begin

section \<open>Data model (src/src/services/socketService.ts)\<close>

text \<open>
  \<^verbatim>\<open>currentTurn: "X" | "O"\<close> is a two-valued type; \<open>mark_str\<close> gives the string that the
  source writes into a board cell for it.
\<close>

datatype mark = Mark_X | Mark_O

fun mark_str :: "mark \<Rightarrow> string" where
  "mark_str Mark_X = ''X''"
| "mark_str Mark_O = ''O''"

text \<open>
  A board cell is declared \<^verbatim>\<open>string | null\<close>. Reading a JavaScript array past its end gives
  \<^verbatim>\<open>undefined\<close>, and writing past its end extends the array, so the cell type has the
  three values the code can meet. (A hole left by extending the array and the value
  \<^verbatim>\<open>undefined\<close> behave alike in every operation the source uses: both read as
  \<^verbatim>\<open>undefined\<close>, the spread copies a hole as \<^verbatim>\<open>undefined\<close>, and \<^verbatim>\<open>every\<close> skips a hole
  where \<^verbatim>\<open>undefined !== null\<close> is true.)
\<close>

datatype cell = Undefined | Null | Str string

text \<open>JavaScript truthiness of a cell: only a non-empty string is truthy.\<close>

fun truthy :: "cell \<Rightarrow> bool" where
  "truthy (Str s) = (s \<noteq> [])"
| "truthy Null = False"
| "truthy Undefined = False"

text \<open>The same for a \<^verbatim>\<open>string | null\<close> name: null and the empty string are falsy.\<close>

fun name_truthy :: "string option \<Rightarrow> bool" where
  "name_truthy None = False"
| "name_truthy (Some s) = (s \<noteq> [])"

text \<open>\<^verbatim>\<open>board[index]\<close>: out of range reads as \<^verbatim>\<open>undefined\<close>.\<close>

definition js_get :: "cell list \<Rightarrow> nat \<Rightarrow> cell" where
  "js_get b i = (if i < length b then b ! i else Undefined)"

text \<open>\<^verbatim>\<open>newBoard[index] = v\<close>: out of range extends the array up to the index.\<close>

definition js_set :: "cell list \<Rightarrow> nat \<Rightarrow> cell \<Rightarrow> cell list" where
  "js_set b i v =
     (if i < length b then b[i := v] else b @ replicate (i - length b) Undefined @ [v])"

record Players =
  player_X :: "string option"
  player_O :: "string option"

text \<open>\<^verbatim>\<open>gameState.players[gameState.currentTurn]\<close>\<close>

fun players_get :: "Players \<Rightarrow> mark \<Rightarrow> string option" where
  "players_get p Mark_X = player_X p"
| "players_get p Mark_O = player_O p"

record GameState =
  board :: "cell list"
  currentTurn :: mark
  gameOver :: bool
  winner :: "string option"
  winningCombination :: "nat list option"
  players :: Players

record Message =
  msg_id :: string
  sender :: string
  msg_text :: string
  timestamp :: nat

record Room =
  room_id :: string
  room_name :: string
  room_players :: "string list"
  spectators :: nat
  isPrivate :: bool

section \<open>The socket service (src/src/services/socketService.ts)\<close>

definition SOCKET_URL :: string where
  "SOCKET_URL = ''https://tic-tac-toe-server-production.up.railway.app''"

definition FALLBACK_URL :: string where
  "FALLBACK_URL = ''https://tictactoe-socket-server.onrender.com''"

definition storage_key :: string where
  "storage_key = ''tictactoe_username''"

text \<open>
  The promise that one call of \<^verbatim>\<open>connect\<close> returns. \<^verbatim>\<open>resolve\<close> and \<^verbatim>\<open>reject\<close> settle
  a promise once; later calls on a settled promise do nothing.
\<close>

datatype promise_state = Pending | Resolved bool | Rejected

text \<open>
  A \<^verbatim>\<open>Socket\<close> object made by \<^verbatim>\<open>io(url, ...)\<close>. Sockets are mutable objects that handlers
  and \<^verbatim>\<open>this.socket\<close> share, so they live in a store (\<open>socks\<close>, below) and are named by
  their position in it. \<open>owner\<close> is the call of \<^verbatim>\<open>connect\<close> whose \<^verbatim>\<open>resolve\<close> the handlers
  of the socket close over; \<open>fallback\<close> tells the handlers that \<^verbatim>\<open>connectToFallback\<close>
  attaches from those that \<^verbatim>\<open>connect\<close> attaches.
\<close>

record sock =
  url :: string
  connected :: bool
  owner :: nat
  fallback :: bool

text \<open>One call of \<^verbatim>\<open>connect\<close>: its promise and its \<^verbatim>\<open>connectTimeout\<close> timer (armed or not).\<close>

record call =
  promise :: promise_state
  connectTimeout :: bool

text \<open>\<^verbatim>\<open>socket.emit(event, ...)\<close>: the messages the service sends to the server.\<close>

datatype emit =
    Create_room string bool
  | Join_room string
  | Leave_room
  | Join_random
  | Move nat
  | Restart_game
  | Send_message string string
  | Get_rooms

text \<open>
  The state of the singleton \<^verbatim>\<open>SocketService\<close> with what it acts on: the socket store, the
  calls of \<^verbatim>\<open>connect\<close> made so far, the trace of \<^verbatim>\<open>io\<close> calls (call, url), the browser's
  \<^verbatim>\<open>localStorage\<close>, and the trace of emitted messages (socket, message).
\<close>

record SocketService =
  socket :: "nat option"
  svc_username :: "string option"
  reconnectAttempts :: nat
  socks :: "sock list"
  calls :: "call list"
  ioCalls :: "(nat \<times> string) list"
  localStorage :: "(string \<times> string) list"
  emitted :: "(nat \<times> emit) list"

definition new_service :: SocketService where
  "new_service = \<lparr>socket = None, svc_username = None, reconnectAttempts = 0, socks = [],
     calls = [], ioCalls = [], localStorage = [], emitted = []\<rparr>"

text \<open>\<^verbatim>\<open>this.socket && this.socket.connected\<close>\<close>

definition socket_connected :: "SocketService \<Rightarrow> bool" where
  "socket_connected w =
     (case socket w of None \<Rightarrow> False
      | Some i \<Rightarrow> i < length (socks w) \<and> connected (socks w ! i))"

text \<open>\<^verbatim>\<open>resolve(v)\<close> / \<^verbatim>\<open>reject(error)\<close> of call \<open>k\<close>.\<close>

definition settle :: "nat \<Rightarrow> promise_state \<Rightarrow> SocketService \<Rightarrow> SocketService" where
  "settle k v w =
     (if k < length (calls w) \<and> promise (calls w ! k) = Pending
      then w\<lparr>calls := (calls w)[k := (calls w ! k)\<lparr>promise := v\<rparr>]\<rparr>
      else w)"

text \<open>\<^verbatim>\<open>clearTimeout(connectTimeout)\<close> of call \<open>k\<close>.\<close>

definition clearTimeout :: "nat \<Rightarrow> SocketService \<Rightarrow> SocketService" where
  "clearTimeout k w =
     (if k < length (calls w)
      then w\<lparr>calls := (calls w)[k := (calls w ! k)\<lparr>connectTimeout := False\<rparr>]\<rparr>
      else w)"

text \<open>
  \<^verbatim>\<open>io\<close> belongs to the socket.io library. Both places that call it stand in a
  \<^verbatim>\<open>try\<close>, so whether a call throws is a parameter: \<open>throws n u\<close> says that the \<open>n\<close>-th
  call of \<^verbatim>\<open>io\<close>, on url \<open>u\<close>, throws.
\<close>

type_synonym io_oracle = "nat \<Rightarrow> string \<Rightarrow> bool"

text \<open>\<^verbatim>\<open>connectToFallback(username, resolve, reject)\<close>, for call \<open>k\<close>.\<close>

definition connectToFallback :: "io_oracle \<Rightarrow> nat \<Rightarrow> SocketService \<Rightarrow> SocketService" where
  "connectToFallback throws k w =
     (let w1 = w\<lparr>reconnectAttempts := reconnectAttempts w + 1\<rparr>;
          w2 = w1\<lparr>ioCalls := ioCalls w1 @ [(k, FALLBACK_URL)]\<rparr>
      in if throws (length (ioCalls w1)) FALLBACK_URL
         then settle k (Resolved False) w2
         else w2\<lparr>socks := socks w2 @
                    [\<lparr>url = FALLBACK_URL, connected = False, owner = k, fallback = True\<rparr>],
                 socket := Some (length (socks w2))\<rparr>)"

text \<open>
  \<^verbatim>\<open>connect(username)\<close>. The call appends its record to \<open>calls\<close>; the promise it returns
  is the \<open>promise\<close> of that record.
\<close>

definition connect :: "io_oracle \<Rightarrow> string \<Rightarrow> SocketService \<Rightarrow> SocketService" where
  "connect throws username w =
     (let w1 = w\<lparr>svc_username := Some username,
                  localStorage := AList.update storage_key username (localStorage w)\<rparr>;
          k = length (calls w1)
      in if socket_connected w1
         then w1\<lparr>calls := calls w1 @ [\<lparr>promise = Resolved True, connectTimeout = False\<rparr>]\<rparr>
         else
           let w2 = w1\<lparr>ioCalls := ioCalls w1 @ [(k, SOCKET_URL)]\<rparr>
           in if throws (length (ioCalls w1)) SOCKET_URL
              then w2\<lparr>calls := calls w2 @ [\<lparr>promise = Rejected, connectTimeout = False\<rparr>]\<rparr>
              else w2\<lparr>socks := socks w2 @
                         [\<lparr>url = SOCKET_URL, connected = False, owner = k, fallback = False\<rparr>],
                      socket := Some (length (socks w2)),
                      calls := calls w2 @ [\<lparr>promise = Pending, connectTimeout = True\<rparr>]\<rparr>)"

text \<open>
  What the environment can deliver: the \<^verbatim>\<open>connect\<close>, \<^verbatim>\<open>connect_error\<close> and
  \<^verbatim>\<open>disconnect\<close> events of a socket, and the firing of the 5000 ms timer of a call. An
  event for a socket that does not exist, or a timer that is not armed, does nothing.
\<close>

datatype event = Connect nat | ConnectError nat | Disconnect nat | Timeout nat

fun handle :: "io_oracle \<Rightarrow> SocketService \<Rightarrow> event \<Rightarrow> SocketService" where
  "handle throws w (Connect i) =
     (if i < length (socks w) then
        let s = socks w ! i;
            w1 = w\<lparr>socks := (socks w)[i := s\<lparr>connected := True\<rparr>]\<rparr>
        in if fallback s
           then settle (owner s) (Resolved True) (w1\<lparr>reconnectAttempts := 0\<rparr>)
           else settle (owner s) (Resolved True)
                  ((clearTimeout (owner s) w1)\<lparr>reconnectAttempts := 0\<rparr>)
      else w)"
| "handle throws w (ConnectError i) =
     (if i < length (socks w) then
        let s = socks w ! i
        in if fallback s
           then settle (owner s) (Resolved False) w
           else
             let w1 = clearTimeout (owner s) w
             in if reconnectAttempts w1 = 0
                then connectToFallback throws (owner s) w1
                else settle (owner s) (Resolved False) w1
      else w)"
| "handle throws w (Disconnect i) =
     (if i < length (socks w)
      then w\<lparr>socks := (socks w)[i := (socks w ! i)\<lparr>connected := False\<rparr>]\<rparr>
      else w)"
| "handle throws w (Timeout k) =
     (if k < length (calls w) \<and> connectTimeout (calls w ! k) then
        let w1 = clearTimeout k w
        in (case socket w1 of
              None \<Rightarrow> w1
            | Some i \<Rightarrow>
                if i < length (socks w1) \<and> \<not> connected (socks w1 ! i)
                then connectToFallback throws k w1
                else w1)
      else w)"

text \<open>The events of a trace, handled in the order they arrive.\<close>

fun run :: "io_oracle \<Rightarrow> SocketService \<Rightarrow> event list \<Rightarrow> SocketService" where
  "run throws w [] = w"
| "run throws w (e # es) = run throws (handle throws w e) es"

text \<open>\<^verbatim>\<open>disconnect()\<close>\<close>

definition disconnect :: "SocketService \<Rightarrow> SocketService" where
  "disconnect w =
     (case socket w of
        None \<Rightarrow> w
      | Some i \<Rightarrow>
          w\<lparr>socks := (if i < length (socks w)
                       then (socks w)[i := (socks w ! i)\<lparr>connected := False\<rparr>]
                       else socks w),
            socket := None, svc_username := None\<rparr>)"

text \<open>
  What an action method hands back: nothing (a \<^verbatim>\<open>void\<close> method that returned), a promise
  already rejected with a reason, a promise already resolved, or a promise left pending
  until the server answers.
\<close>

datatype outcome = Returned | PromiseRejected string | PromiseResolved | PromisePending

definition socketService_createRoom ::
    "string \<Rightarrow> bool \<Rightarrow> SocketService \<Rightarrow> outcome \<times> SocketService" where
  "socketService_createRoom roomName isPriv w =
     (case socket w of
        None \<Rightarrow> (PromiseRejected ''Not connected'', w)
      | Some i \<Rightarrow> (PromisePending, w\<lparr>emitted := emitted w @ [(i, Create_room roomName isPriv)]\<rparr>))"

definition socketService_joinRoom :: "string \<Rightarrow> SocketService \<Rightarrow> outcome \<times> SocketService" where
  "socketService_joinRoom roomId w =
     (case socket w of
        None \<Rightarrow> (PromiseRejected ''Not connected'', w)
      | Some i \<Rightarrow> (PromisePending, w\<lparr>emitted := emitted w @ [(i, Join_room roomId)]\<rparr>))"

definition socketService_leaveRoom :: "SocketService \<Rightarrow> outcome \<times> SocketService" where
  "socketService_leaveRoom w =
     (case socket w of
        None \<Rightarrow> (Returned, w)
      | Some i \<Rightarrow> (Returned, w\<lparr>emitted := emitted w @ [(i, Leave_room)]\<rparr>))"

definition socketService_joinRandomGame :: "SocketService \<Rightarrow> outcome \<times> SocketService" where
  "socketService_joinRandomGame w =
     (case socket w of
        None \<Rightarrow> (PromiseRejected ''Not connected'', w)
      | Some i \<Rightarrow> (PromisePending, w\<lparr>emitted := emitted w @ [(i, Join_random)]\<rparr>))"

definition socketService_makeMove :: "nat \<Rightarrow> SocketService \<Rightarrow> outcome \<times> SocketService" where
  "socketService_makeMove index w =
     (case socket w of
        None \<Rightarrow> (Returned, w)
      | Some i \<Rightarrow> (Returned, w\<lparr>emitted := emitted w @ [(i, Move index)]\<rparr>))"

definition socketService_restartGame :: "SocketService \<Rightarrow> outcome \<times> SocketService" where
  "socketService_restartGame w =
     (case socket w of
        None \<Rightarrow> (Returned, w)
      | Some i \<Rightarrow> (Returned, w\<lparr>emitted := emitted w @ [(i, Restart_game)]\<rparr>))"

text \<open>\<^verbatim>\<open>if (!this.socket || !this.username) return;\<close>\<close>

definition socketService_sendMessage :: "string \<Rightarrow> SocketService \<Rightarrow> outcome \<times> SocketService" where
  "socketService_sendMessage message w =
     (case socket w of
        None \<Rightarrow> (Returned, w)
      | Some i \<Rightarrow>
          (case svc_username w of
             None \<Rightarrow> (Returned, w)
           | Some u \<Rightarrow>
               if u = [] then (Returned, w)
               else (Returned, w\<lparr>emitted := emitted w @ [(i, Send_message message u)]\<rparr>)))"

definition socketService_getRoomList :: "SocketService \<Rightarrow> outcome \<times> SocketService" where
  "socketService_getRoomList w =
     (case socket w of
        None \<Rightarrow> (PromiseRejected ''Not connected'', w)
      | Some i \<Rightarrow> (PromisePending, w\<lparr>emitted := emitted w @ [(i, Get_rooms)]\<rparr>))"

section \<open>The game context (src/src/context/GameContext.tsx)\<close>

text \<open>The state that \<^verbatim>\<open>GameProvider\<close> holds in its \<^verbatim>\<open>useState\<close> cells.\<close>

record ctx =
  username :: "string option"
  gameState :: "GameState option"
  rooms :: "Room list"
  messages :: "Message list"
  currentRoom :: "string option"
  isOfflineMode :: bool

definition initial_ctx :: ctx where
  "initial_ctx = \<lparr>username = None, gameState = None, rooms = [], messages = [],
     currentRoom = None, isOfflineMode = False\<rparr>"

definition initialGameState :: GameState where
  "initialGameState = \<lparr>board = replicate 9 Null, currentTurn = Mark_X, gameOver = False,
     winner = None, winningCombination = None,
     players = \<lparr>player_X = None, player_O = None\<rparr>\<rparr>"

definition demoRooms :: "Room list" where
  "demoRooms =
     [\<lparr>room_id = ''demo-room-1'', room_name = ''Public Game Room'',
       room_players = [''Player1''], spectators = 0, isPrivate = False\<rparr>,
      \<lparr>room_id = ''demo-room-2'', room_name = ''Quick Match'',
       room_players = [''Player2'', ''Player3''], spectators = 1, isPrivate = False\<rparr>]"

text \<open>\<^verbatim>\<open>username || "You"\<close>\<close>

fun or_default :: "string option \<Rightarrow> string \<Rightarrow> string" where
  "or_default None d = d"
| "or_default (Some s) d = (if s = [] then d else s)"

fun setUsername :: "string \<Rightarrow> ctx \<times> SocketService \<Rightarrow> ctx \<times> SocketService" where
  "setUsername name (c, w) =
     (c\<lparr>username := Some name\<rparr>,
      w\<lparr>localStorage := AList.update storage_key name (localStorage w)\<rparr>)"

text \<open>
  \<^verbatim>\<open>connectToServer\<close> calls \<^verbatim>\<open>socketService.connect\<close> and chains a \<^verbatim>\<open>then\<close> and a
  \<^verbatim>\<open>catch\<close> on its promise. \<open>connectToServer_settled\<close> is that chain, run on the promise
  of call \<open>k\<close>: it gives the state of the promise that \<^verbatim>\<open>connectToServer\<close> returned and
  the state the callbacks leave. (The room list that the server sends back on
  \<^verbatim>\<open>get_rooms\<close> arrives later and is not part of it.)
\<close>

fun connectToServer_settled ::
    "string \<Rightarrow> nat \<Rightarrow> ctx \<times> SocketService \<Rightarrow> promise_state \<times> (ctx \<times> SocketService)" where
  "connectToServer_settled name k (c, w) =
     (if k < length (calls w) then
        (case promise (calls w ! k) of
           Pending \<Rightarrow> (Pending, (c, w))
         | Resolved success \<Rightarrow>
             (case setUsername name (c, w) of (c1, w1) \<Rightarrow>
                if success
                then (Resolved True,
                      (c1\<lparr>isOfflineMode := False\<rparr>, snd (socketService_getRoomList w1)))
                else (Resolved False, (c1\<lparr>isOfflineMode := True, rooms := demoRooms\<rparr>, w1)))
         | Rejected \<Rightarrow> (Resolved False, (c\<lparr>isOfflineMode := True, rooms := demoRooms\<rparr>, w)))
      else (Pending, (c, w)))"

fun connectToServer :: "io_oracle \<Rightarrow> string \<Rightarrow> ctx \<times> SocketService \<Rightarrow> ctx \<times> SocketService" where
  "connectToServer throws name (c, w) = (c, connect throws name w)"

fun disconnectFromServer :: "ctx \<times> SocketService \<Rightarrow> ctx \<times> SocketService" where
  "disconnectFromServer (c, w) =
     (c\<lparr>gameState := None, currentRoom := None, rooms := [], messages := [],
        username := None, isOfflineMode := False\<rparr>,
      disconnect w)"

text \<open>
  \<^verbatim>\<open>joinRoom(id)\<close>. \<^verbatim>\<open>uuidv4()\<close> and \<^verbatim>\<open>Date.now()\<close> are taken as parameters. In online mode
  the call is forwarded to the service; \<^verbatim>\<open>setCurrentRoom\<close> runs only later, when the
  server has answered.
\<close>

fun joinRoom ::
    "string \<Rightarrow> string \<Rightarrow> nat \<Rightarrow> ctx \<times> SocketService \<Rightarrow> outcome \<times> (ctx \<times> SocketService)" where
  "joinRoom rid uuid now (c, w) =
     (if isOfflineMode c then
        (case find (\<lambda>r. room_id r = rid) (rooms c) of
           None \<Rightarrow> (PromiseRejected ''Room not found'', (c, w))
         | Some roomToJoin \<Rightarrow>
             if length (room_players roomToJoin) \<ge> 2
             then (PromiseRejected ''Room is full'', (c, w))
             else
               (PromiseResolved,
                (c\<lparr>rooms :=
                     map (\<lambda>r. if room_id r = rid
                               then r\<lparr>room_players :=
                                        room_players r @ [or_default (username c) ''You'']\<rparr>
                               else r) (rooms c),
                   currentRoom := Some rid,
                   gameState := Some (initialGameState\<lparr>players :=
                     \<lparr>player_X = (case room_players roomToJoin of [] \<Rightarrow> None
                                    | p # _ \<Rightarrow> Some p),
                      player_O = username c\<rparr>\<rparr>),
                   messages := [\<lparr>msg_id = uuid, sender = ''System'',
                                 msg_text = ''Welcome to the game room!'',
                                 timestamp = now\<rparr>]\<rparr>,
                 w)))
      else (case socketService_joinRoom rid w of (r, w') \<Rightarrow> (r, (c, w'))))"

text \<open>
  \<^verbatim>\<open>checkWinner(board)\<close>: the eight lines in their fixed order; the loop returns the first
  line whose three cells hold the same truthy value. (\<^verbatim>\<open>const [a, b, c] = line\<close> takes the
  first three entries of a line; with fewer, an index is \<^verbatim>\<open>undefined\<close> and the test is
  false.)
\<close>

definition lines :: "nat list list" where
  "lines = [[0, 1, 2], [3, 4, 5], [6, 7, 8], [0, 3, 6], [1, 4, 7], [2, 5, 8],
            [0, 4, 8], [2, 4, 6]]"

fun line_wins :: "cell list \<Rightarrow> nat list \<Rightarrow> bool" where
  "line_wins b (a1 # a2 # a3 # rest) =
     (truthy (js_get b a1) \<and> js_get b a1 = js_get b a2 \<and> js_get b a1 = js_get b a3)"
| "line_wins b _ = False"

fun checkWinner_loop :: "cell list \<Rightarrow> nat list list \<Rightarrow> nat list option" where
  "checkWinner_loop b [] = None"
| "checkWinner_loop b (line # rest) =
     (if line_wins b line then Some line else checkWinner_loop b rest)"

definition checkWinner :: "cell list \<Rightarrow> nat list option" where
  "checkWinner b = checkWinner_loop b lines"

text \<open>
  \<^verbatim>\<open>makeMove(index)\<close>. The index is an array index, a natural number. In online mode the
  move is only forwarded to the service.
\<close>

fun makeMove :: "nat \<Rightarrow> ctx \<times> SocketService \<Rightarrow> ctx \<times> SocketService" where
  "makeMove index (c, w) =
     (if isOfflineMode c then
        (case gameState c of
           None \<Rightarrow> (c, w)
         | Some g \<Rightarrow>
             if truthy (js_get (board g) index) \<or> gameOver g then (c, w)
             else
               let newBoard = js_set (board g) index (Str (mark_str (currentTurn g)));
                   win = checkWinner newBoard;
                   isDraw = (win = None \<and> list_all (\<lambda>cell. cell \<noteq> Null) newBoard)
               in (c\<lparr>gameState := Some (g\<lparr>
                       board := newBoard,
                       currentTurn := (if currentTurn g = Mark_X then Mark_O else Mark_X),
                       gameOver := (win \<noteq> None \<or> isDraw),
                       winner := (if win \<noteq> None then players_get (players g) (currentTurn g)
                                  else None),
                       winningCombination := win\<rparr>)\<rparr>,
                   w))
      else (c, snd (socketService_makeMove index w)))"

text \<open>
  The timer that \<^verbatim>\<open>makeMove\<close> sets for the simulated opponent: \<open>Some newBoard\<close> when the
  call reaches \<^verbatim>\<open>setTimeout\<close> (the callback picks a random empty cell of \<open>newBoard\<close> and
  calls \<^verbatim>\<open>makeMove\<close> again), \<open>None\<close> when it does not.
\<close>

definition makeMove_timer :: "nat \<Rightarrow> ctx \<Rightarrow> cell list option" where
  "makeMove_timer index c =
     (if isOfflineMode c then
        (case gameState c of
           None \<Rightarrow> None
         | Some g \<Rightarrow>
             if truthy (js_get (board g) index) \<or> gameOver g then None
             else
               let newBoard = js_set (board g) index (Str (mark_str (currentTurn g)));
                   win = checkWinner newBoard;
                   isDraw = (win = None \<and> list_all (\<lambda>cell. cell \<noteq> Null) newBoard)
               in if win = None \<and> \<not> isDraw \<and> currentTurn g = Mark_X
                     \<and> \<not> name_truthy (player_O (players g))
                  then Some newBoard else None)
      else None)"

text \<open>\<^verbatim>\<open>restartGame()\<close>, with \<^verbatim>\<open>uuidv4()\<close> and \<^verbatim>\<open>Date.now()\<close> as parameters.\<close>

fun restartGame :: "string \<Rightarrow> nat \<Rightarrow> ctx \<times> SocketService \<Rightarrow> ctx \<times> SocketService" where
  "restartGame uuid now (c, w) =
     (if isOfflineMode c then
        (c\<lparr>gameState := Some (initialGameState\<lparr>players :=
              (case gameState c of
                 Some g \<Rightarrow> players g
               | None \<Rightarrow> \<lparr>player_X = username c, player_O = None\<rparr>)\<rparr>),
           messages := messages c @
              [\<lparr>msg_id = uuid, sender = ''System'', msg_text = ''Game has been restarted.'',
                timestamp = now\<rparr>]\<rparr>,
         w)
      else (c, snd (socketService_restartGame w)))"

section \<open>The page (src/src/pages/Index.tsx)\<close>

text \<open>\<^verbatim>\<open>handleLogout\<close> (the toast it shows is not state).\<close>

fun handleLogout :: "ctx \<times> SocketService \<Rightarrow> ctx \<times> SocketService" where
  "handleLogout s =
     (case disconnectFromServer s of
        (c, w) \<Rightarrow> (c, w\<lparr>localStorage := AList.delete storage_key (localStorage w)\<rparr>))"

section \<open>Notions the properties are stated with\<close>

text \<open>A sequence of moves: \<^verbatim>\<open>makeMove\<close> called once for each index, in order.\<close>

fun makeMoves :: "nat list \<Rightarrow> ctx \<times> SocketService \<Rightarrow> ctx \<times> SocketService" where
  "makeMoves [] s = s"
| "makeMoves (i # is) s = makeMoves is (makeMove i s)"

text \<open>
  The two conditions of the game-over property, read off the board alone: some line of
  \<open>lines\<close> holds the same mark three times; each of the nine cells holds a mark.
\<close>

definition is_mark :: "cell \<Rightarrow> bool" where
  "is_mark c = (c = Str ''X'' \<or> c = Str ''O'')"

definition line_complete :: "cell list \<Rightarrow> bool" where
  "line_complete b =
     (\<exists>line \<in> set lines. \<exists>m \<in> {Mark_X, Mark_O}. \<forall>i \<in> set line. js_get b i = Str (mark_str m))"

definition all_filled :: "cell list \<Rightarrow> bool" where
  "all_filled b = (\<forall>i \<in> {0..<9}. is_mark (js_get b i))"

text \<open>
  What holds of every board that play reaches: it has at least nine cells, each of the
  first nine is empty or a mark, and no cell beyond them (there is one only after a move
  on an index past the board) is \<^verbatim>\<open>null\<close>.
\<close>

definition board_ok :: "cell list \<Rightarrow> bool" where
  "board_ok b =
     (9 \<le> length b \<and> (\<forall>i<9. b ! i = Null \<or> is_mark (b ! i))
      \<and> (\<forall>i. 9 \<le> i \<and> i < length b \<longrightarrow> b ! i \<noteq> Null))"

definition game_ok :: "GameState \<Rightarrow> bool" where
  "game_ok g =
     (board_ok (board g)
      \<and> (gameOver g \<longleftrightarrow> line_complete (board g) \<or> all_filled (board g)))"

definition state_ok :: "ctx \<times> SocketService \<Rightarrow> bool" where
  "state_ok s = (isOfflineMode (fst s) \<and> (\<exists>g. gameState (fst s) = Some g \<and> game_ok g))"

text \<open>The board of the scenario: X on 0 and 1, O on 3 and 4.\<close>

definition scenario_board :: "cell list" where
  "scenario_board = [Str ''X'', Str ''X'', Null, Str ''O'', Str ''O'', Null, Null, Null, Null]"

text \<open>
  An offline session in a room: the demo rooms in the list, and a fresh game with the user
  as X and no opponent yet.
\<close>

definition example_players :: Players where
  "example_players = \<lparr>player_X = Some ''ann'', player_O = None\<rparr>"

definition example_ctx :: ctx where
  "example_ctx = \<lparr>username = Some ''ann'',
     gameState = Some (initialGameState\<lparr>players := example_players\<rparr>),
     rooms = demoRooms, messages = [], currentRoom = Some ''room-1'', isOfflineMode = True\<rparr>"

text \<open>The urls that \<^verbatim>\<open>io\<close> was called with between the state \<open>w\<close> and the later state \<open>v\<close>.\<close>

definition io_since :: "SocketService \<Rightarrow> SocketService \<Rightarrow> string list" where
  "io_since w v = map snd (drop (length (ioCalls w)) (ioCalls v))"

text \<open>
  The events that belong to the call of \<^verbatim>\<open>connect\<close> made in state \<open>w\<close>: events of the
  sockets made after \<open>w\<close>, and the timer of the call. (Sockets of earlier calls keep their
  handlers; what they do to a later call is outside the failover property.)
\<close>

fun own_event :: "SocketService \<Rightarrow> event \<Rightarrow> bool" where
  "own_event w (Connect i) = (length (socks w) \<le> i)"
| "own_event w (ConnectError i) = (length (socks w) \<le> i)"
| "own_event w (Disconnect i) = True"
| "own_event w (Timeout j) = (length (calls w) \<le> j)"

text \<open>An error of a socket that \<^verbatim>\<open>connect\<close> made, or the firing of an armed timer.\<close>

fun fallback_trigger :: "SocketService \<Rightarrow> event \<Rightarrow> bool" where
  "fallback_trigger v (ConnectError i) = (i < length (socks v) \<and> \<not> fallback (socks v ! i))"
| "fallback_trigger v (Timeout j) = (j < length (calls v) \<and> connectTimeout (calls v ! j))"
| "fallback_trigger v _ = False"

text \<open>
  The invariant of one call of \<^verbatim>\<open>connect\<close>, made in \<open>w\<close>, over the states \<open>v\<close> after it.
  Its first part is about the order of the \<^verbatim>\<open>io\<close> calls; the part under \<open>strict\<close> ties a
  promise resolved to false to the fallback url, and is kept only by a call that starts
  with the counter at 0.
\<close>

definition failover_inv :: "bool \<Rightarrow> SocketService \<Rightarrow> SocketService \<Rightarrow> bool" where
  "failover_inv strict w v =
     (length (ioCalls w) \<le> length (ioCalls v)
      \<and> length (calls v) = Suc (length (calls w))
      \<and> length (socks w) \<le> length (socks v)
      \<and> (if socket_connected w then io_since w v = []
          else (\<exists>m. io_since w v = SOCKET_URL # replicate m FALLBACK_URL))
      \<and> (io_since w v = [] \<longrightarrow> length (socks v) = length (socks w)
                         \<and> \<not> connectTimeout (calls v ! length (calls w)))
      \<and> (strict \<and> FALLBACK_URL \<notin> set (io_since w v) \<longrightarrow>
              reconnectAttempts v = 0
              \<and> promise (calls v ! length (calls w)) \<noteq> Resolved False
              \<and> (\<forall>i. length (socks w) \<le> i \<and> i < length (socks v)
                     \<longrightarrow> \<not> fallback (socks v ! i))))"

text \<open>Two environments: \<^verbatim>\<open>io\<close> never throws; \<^verbatim>\<open>io\<close> throws on the primary url.\<close>

definition never_throws :: io_oracle where
  "never_throws = (\<lambda>n u. False)"


text \<open>
  The service of a user who has logged in with no server in reach: \<^verbatim>\<open>connect\<close> on a new
  service, a \<^verbatim>\<open>connect_error\<close> of the primary socket, then a \<^verbatim>\<open>connect_error\<close> of the
  fallback socket.
\<close>

definition offline_service :: SocketService where
  "offline_service = run never_throws (connect never_throws ''ann'' new_service)
                       [ConnectError 0, ConnectError 1]"

text \<open>
  The service after one failed login and the logout that follows it: \<^verbatim>\<open>connect\<close> on a
  new service, a \<^verbatim>\<open>connect_error\<close> of the primary socket, a \<^verbatim>\<open>connect_error\<close> of the
  fallback socket, then \<^verbatim>\<open>disconnect\<close>.
\<close>

definition failed_once :: SocketService where
  "failed_once = disconnect (run never_throws (connect never_throws ''bob'' new_service)
                    [ConnectError 0, ConnectError 1])"

section \<open>The offline game\<close>

subsection \<open>Boards that play reaches\<close>

lemma is_mark_mark_str: "is_mark (Str (mark_str m))"
  by (cases m) (simp_all add: is_mark_def)

lemma board_ok_initial: "board_ok (replicate 9 Null)"
  by (simp add: board_ok_def)

lemma board_ok_js_set:
  assumes "board_ok b" and "\<not> truthy (js_get b i)"
  shows "board_ok (js_set b i (Str (mark_str m)))"
proof (cases "i < length b")
  case True
  then have eq: "js_set b i (Str (mark_str m)) = b[i := Str (mark_str m)]"
    by (simp add: js_set_def)
  show ?thesis
    unfolding eq using assms(1) True
    by (auto simp: board_ok_def nth_list_update is_mark_mark_str)
next
  case False
  then have eq: "js_set b i (Str (mark_str m))
                   = b @ replicate (i - length b) Undefined @ [Str (mark_str m)]"
    by (simp add: js_set_def)
  have len: "9 \<le> length b" using assms(1) by (simp add: board_ok_def)
  show ?thesis
    unfolding eq using assms(1) False len
    by (auto simp: board_ok_def nth_append nth_Cons')
qed

lemma js_get_ok: "board_ok b \<Longrightarrow> i < 9 \<Longrightarrow> js_get b i = Null \<or> is_mark (js_get b i)"
  by (auto simp: board_ok_def js_get_def)

subsection \<open>The loop of checkWinner against the lines\<close>

lemma checkWinner_loop_Some:
  "(checkWinner_loop b ls \<noteq> None) = (\<exists>l \<in> set ls. line_wins b l)"
  by (induction ls) auto

lemma line_wins_complete:
  assumes "board_ok b" and "a1 < 9" and "a2 < 9" and "a3 < 9"
  shows "line_wins b [a1, a2, a3] =
           (\<exists>m \<in> {Mark_X, Mark_O}. \<forall>i \<in> set [a1, a2, a3]. js_get b i = Str (mark_str m))"
  using js_get_ok [OF assms(1,2)] js_get_ok [OF assms(1,3)] js_get_ok [OF assms(1,4)]
  by (auto simp: is_mark_def)

lemma line_wins_lines:
  assumes "board_ok b" and "l \<in> set lines"
  shows "line_wins b l =
           (\<exists>m \<in> {Mark_X, Mark_O}. \<forall>i \<in> set l. js_get b i = Str (mark_str m))"
proof -
  from assms(2) consider "l = [0, 1, 2]" | "l = [3, 4, 5]" | "l = [6, 7, 8]" | "l = [0, 3, 6]"
    | "l = [1, 4, 7]" | "l = [2, 5, 8]" | "l = [0, 4, 8]" | "l = [2, 4, 6]"
    unfolding lines_def by auto
  then show ?thesis
    by cases (simp_all only: line_wins_complete [OF assms(1)] numeral_less_iff
        Num.num.simps semiring_norm zero_less_numeral one_less_numeral_iff)
qed

lemma checkWinner_complete:
  assumes "board_ok b"
  shows "(checkWinner b \<noteq> None) = line_complete b"
  unfolding checkWinner_def checkWinner_loop_Some line_complete_def
  using line_wins_lines [OF assms] by blast

lemma every_filled:
  assumes "board_ok b"
  shows "list_all (\<lambda>cell. cell \<noteq> Null) b = all_filled b"
proof
  assume all: "list_all (\<lambda>cell. cell \<noteq> Null) b"
  show "all_filled b"
    unfolding all_filled_def
  proof
    fix i assume "i \<in> {0..<9::nat}"
    then have i: "i < 9" by simp
    with assms have "i < length b" by (simp add: board_ok_def)
    with all have "b ! i \<noteq> Null" by (simp add: list_all_length)
    with js_get_ok [OF assms i] \<open>i < length b\<close> show "is_mark (js_get b i)"
      by (simp add: js_get_def)
  qed
next
  assume f: "all_filled b"
  have "b ! i \<noteq> Null" if "i < length b" for i
  proof (cases "i < 9")
    case True
    with f have "is_mark (js_get b i)" by (simp add: all_filled_def)
    with that show ?thesis by (auto simp: js_get_def is_mark_def)
  next
    case False
    with assms that show ?thesis by (simp add: board_ok_def)
  qed
  then show "list_all (\<lambda>cell. cell \<noteq> Null) b" by (simp add: list_all_length)
qed

subsection \<open>Every move keeps the game consistent\<close>

lemma initial_game_ok: "game_ok (initialGameState\<lparr>players := p\<rparr>)"
proof -
  have "\<not> is_mark (js_get (replicate 9 Null) 0)"
    by (simp add: js_get_def is_mark_def)
  then have nf: "\<not> all_filled (replicate 9 Null)"
    unfolding all_filled_def by (metis atLeastLessThan_iff zero_le zero_less_numeral)
  have nl: "\<not> line_complete (replicate 9 Null)"
    by (simp add: line_complete_def lines_def js_get_def)
  show ?thesis
    by (simp add: game_ok_def initialGameState_def board_ok_initial nf nl)
qed

lemma makeMove_state_ok:
  assumes "state_ok s"
  shows "state_ok (makeMove index s)"
proof -
  obtain c w where s: "s = (c, w)" by (cases s)
  from assms s obtain g where off: "isOfflineMode c" and g: "gameState c = Some g"
    and ok: "game_ok g"
    by (auto simp: state_ok_def)
  show ?thesis
  proof (cases "truthy (js_get (board g) index) \<or> gameOver g")
    case True
    with off g have "makeMove index s = s" by (simp add: s)
    with assms show ?thesis by simp
  next
    case False
    define nb where "nb = js_set (board g) index (Str (mark_str (currentTurn g)))"
    have nb_ok: "board_ok nb"
      unfolding nb_def using ok False by (intro board_ok_js_set) (auto simp: game_ok_def)
    show ?thesis
      using off g False nb_ok checkWinner_complete [OF nb_ok] every_filled [OF nb_ok]
      unfolding s nb_def
      by (auto simp: state_ok_def game_ok_def Let_def)
  qed
qed

lemma makeMoves_state_ok: "state_ok s \<Longrightarrow> state_ok (makeMoves is s)"
  by (induction "is" arbitrary: s) (simp_all add: makeMove_state_ok)

text \<open>The equations that evaluate a concrete game.\<close>

lemmas game_eval = example_ctx_def example_players_def initialGameState_def
  js_get_def js_set_def checkWinner_def lines_def Let_def eval_nat_numeral

text \<open>
  C1. In offline mode, start from the initial game (whoever the players are) and call
  \<^verbatim>\<open>makeMove\<close> for any sequence of indices, in range or not. In the state reached,
  \<open>gameOver\<close> is true exactly when one of the eight lines holds one mark three times or
  all nine cells hold a mark.
\<close>

theorem gameOver_iff_line_or_full:
  assumes "isOfflineMode c" and "gameState c = Some (initialGameState\<lparr>players := p\<rparr>)"
  shows "\<exists>g. gameState (fst (makeMoves moves (c, w))) = Some g
           \<and> (gameOver g \<longleftrightarrow> line_complete (board g) \<or> all_filled (board g))"
proof -
  from assms have "state_ok (c, w)" by (simp add: state_ok_def initial_game_ok)
  then have "state_ok (makeMoves moves (c, w))" by (rule makeMoves_state_ok)
  then show ?thesis by (auto simp: state_ok_def game_ok_def)
qed

text \<open>
  C1 at a concrete game: X plays 0, 1 and 2, O plays 3 and 4; the game is over and the
  top row is complete.
\<close>

theorem gameOver_iff_line_or_full_witness:
  "isOfflineMode example_ctx
   \<and> gameState example_ctx = Some (initialGameState\<lparr>players := example_players\<rparr>)
   \<and> (\<exists>g. gameState (fst (makeMoves [0, 3, 1, 4, 2] (example_ctx, new_service))) = Some g
          \<and> gameOver g \<and> line_complete (board g))"
  using gameOver_iff_line_or_full [of example_ctx example_players "[0, 3, 1, 4, 2]" new_service]
  by (simp add: game_eval line_complete_def)

text \<open>
  C2. In offline mode, a move on a cell that already holds a mark (any non-empty string),
  or a move when \<open>gameOver\<close> is true, is ignored: the whole state, and so the board, the
  turn, \<open>gameOver\<close>, the winner, the winning combination and the players, is what it was,
  and no timer for the simulated opponent is set.
\<close>

theorem makeMove_invalid_ignored:
  assumes "isOfflineMode c" and "gameState c = Some g"
    and "truthy (js_get (board g) index) \<or> gameOver g"
  shows "makeMove index (c, w) = (c, w) \<and> makeMove_timer index c = None"
  using assms by (auto simp: makeMove_timer_def)

text \<open>
  C2 at two concrete states: after X has played 0, a second move on 0 changes nothing;
  after X has won with the top row, a move on the free cell 5 changes nothing.
\<close>

theorem makeMove_invalid_ignored_witness:
  "makeMove 0 (makeMoves [0] (example_ctx, new_service)) = makeMoves [0] (example_ctx, new_service)
   \<and> makeMove 5 (makeMoves [0, 3, 1, 4, 2] (example_ctx, new_service))
       = makeMoves [0, 3, 1, 4, 2] (example_ctx, new_service)"
proof -
  define g1 where "g1 = \<lparr>board = [Str ''X'', Null, Null, Null, Null, Null, Null, Null, Null],
      currentTurn = Mark_O, gameOver = False, winner = None, winningCombination = None,
      players = example_players\<rparr>"
  define g2 where "g2 = \<lparr>board = [Str ''X'', Str ''X'', Str ''X'', Str ''O'', Str ''O'',
      Null, Null, Null, Null], currentTurn = Mark_O, gameOver = True, winner = Some ''ann'',
      winningCombination = Some [0, 1, 2], players = example_players\<rparr>"
  have e1: "makeMoves [0] (example_ctx, new_service)
              = (example_ctx\<lparr>gameState := Some g1\<rparr>, new_service)"
    by (simp add: g1_def game_eval)
  have e2: "makeMoves [0, 3, 1, 4, 2] (example_ctx, new_service)
              = (example_ctx\<lparr>gameState := Some g2\<rparr>, new_service)"
    by (simp add: g2_def game_eval)
  have occupied: "truthy (js_get (board g1) 0)"
    by (simp add: g1_def js_get_def)
  have over: "gameOver g2"
    by (simp add: g2_def)
  have "makeMove 0 (example_ctx\<lparr>gameState := Some g1\<rparr>, new_service)
          = (example_ctx\<lparr>gameState := Some g1\<rparr>, new_service)"
    using makeMove_invalid_ignored [of "example_ctx\<lparr>gameState := Some g1\<rparr>" g1 0 new_service]
      occupied
    by (simp add: example_ctx_def)
  moreover have "makeMove 5 (example_ctx\<lparr>gameState := Some g2\<rparr>, new_service)
          = (example_ctx\<lparr>gameState := Some g2\<rparr>, new_service)"
    using makeMove_invalid_ignored [of "example_ctx\<lparr>gameState := Some g2\<rparr>" g2 5 new_service]
      over
    by (simp add: example_ctx_def)
  ultimately show ?thesis
    unfolding e1 e2 by simp
qed

text \<open>
  C9. In offline mode, in a game in progress whose board is [X, X, null, O, O, null, null,
  null, null] and where it is X's turn, \<^verbatim>\<open>makeMove(2)\<close> gives a state whose winner is
  the name of player X, whose winning combination is [0, 1, 2] and whose \<open>gameOver\<close> is
  true.
\<close>

theorem makeMove_scenario_win:
  assumes "isOfflineMode c" and "gameState c = Some g"
    and "board g = [Str ''X'', Str ''X'', Null, Str ''O'', Str ''O'', Null, Null, Null, Null]"
    and "currentTurn g = Mark_X" and "\<not> gameOver g"
  shows "\<exists>g'. gameState (fst (makeMove 2 (c, w))) = Some g'
           \<and> winner g' = player_X (players g)
           \<and> winningCombination g' = Some [0, 1, 2]
           \<and> gameOver g' = True"
proof -
  have free: "\<not> truthy (js_get (board g) 2)"
    using assms(3) by (simp add: js_get_def)
  have win: "checkWinner (js_set (board g) 2 (Str ''X'')) = Some [0, 1, 2]"
    using assms(3) by (simp add: checkWinner_def lines_def js_set_def js_get_def)
  show ?thesis
    using assms free win by (simp add: Let_def)
qed

text \<open>
  C9 at the state that play reaches with the moves 0, 3, 1, 4 from a fresh game: the
  board is the one of the scenario, it is X's turn, and the move on 2 makes ann, who plays
  X, the winner.
\<close>

theorem makeMove_scenario_win_witness:
  "(\<exists>g. gameState (fst (makeMoves [0, 3, 1, 4] (example_ctx, new_service))) = Some g
        \<and> board g = scenario_board \<and> currentTurn g = Mark_X \<and> \<not> gameOver g)
   \<and> (\<exists>g'. gameState (fst (makeMove 2 (makeMoves [0, 3, 1, 4] (example_ctx, new_service))))
               = Some g'
          \<and> winner g' = Some ''ann'' \<and> winningCombination g' = Some [0, 1, 2]
          \<and> gameOver g' = True)"
proof -
  define g where "g = \<lparr>board = scenario_board, currentTurn = Mark_X, gameOver = False,
      winner = None, winningCombination = None, players = example_players\<rparr>"
  have e: "makeMoves [0, 3, 1, 4] (example_ctx, new_service)
             = (example_ctx\<lparr>gameState := Some g\<rparr>, new_service)"
    by (simp add: g_def scenario_board_def game_eval)
  have "\<exists>g'. gameState (fst (makeMove 2 (example_ctx\<lparr>gameState := Some g\<rparr>, new_service)))
                = Some g'
           \<and> winner g' = player_X (players g)
           \<and> winningCombination g' = Some [0, 1, 2]
           \<and> gameOver g' = True"
    by (rule makeMove_scenario_win)
       (simp_all add: example_ctx_def g_def scenario_board_def)
  then show ?thesis
    unfolding e by (simp add: g_def example_players_def)
qed

text \<open>
  C10. In offline mode, whatever the game state is, \<^verbatim>\<open>restartGame\<close> leaves a game with
  nine empty cells, X to move, \<open>gameOver\<close> false, no winner and no winning combination,
  and with the players that the game had.
\<close>

theorem restartGame_resets:
  assumes "isOfflineMode c" and "gameState c = Some g"
  shows "gameState (fst (restartGame uuid now (c, w))) =
           Some \<lparr>board = replicate 9 Null, currentTurn = Mark_X, gameOver = False,
                 winner = None, winningCombination = None, players = players g\<rparr>"
  using assms by (simp add: initialGameState_def)

text \<open>C10 after a finished game: the board is empty again and ann is still X.\<close>

theorem restartGame_resets_witness:
  "gameState (fst (restartGame ''id-1'' 7 (makeMoves [0, 3, 1, 4, 2] (example_ctx, new_service))))
     = Some \<lparr>board = [Null, Null, Null, Null, Null, Null, Null, Null, Null],
             currentTurn = Mark_X, gameOver = False, winner = None,
             winningCombination = None, players = example_players\<rparr>"
proof -
  obtain c w where s: "makeMoves [0, 3, 1, 4, 2] (example_ctx, new_service) = (c, w)"
    by (cases "makeMoves [0, 3, 1, 4, 2] (example_ctx, new_service)")
  have c: "isOfflineMode c \<and> (\<exists>g. gameState c = Some g \<and> players g = example_players)"
    using s
    by (auto simp: game_eval)
  then obtain g where g: "gameState c = Some g" "players g = example_players" by blast
  from restartGame_resets [of c g "''id-1''" 7 w] c g
  show ?thesis unfolding s by (simp add: eval_nat_numeral)
qed

section \<open>Rooms and logout\<close>

text \<open>
  C8. In offline mode, \<^verbatim>\<open>joinRoom\<close> on an identifier whose room (the first of the list
  with that identifier) has two or more occupants is rejected with "Room is full", and on
  an identifier that no room of the list has it is rejected with "Room not found". Either
  way the whole state, and so every entry of the room list, is what it was.
\<close>

theorem joinRoom_rejects:
  assumes "isOfflineMode c"
  shows "(find (\<lambda>r. room_id r = rid) (rooms c) = Some r \<and> 2 \<le> length (room_players r)
            \<longrightarrow> joinRoom rid uuid now (c, w) = (PromiseRejected ''Room is full'', (c, w)))
       \<and> (rid \<notin> set (map room_id (rooms c))
            \<longrightarrow> joinRoom rid uuid now (c, w) = (PromiseRejected ''Room not found'', (c, w)))"
proof -
  have "find (\<lambda>r. room_id r = rid) (rooms c) = None" if "rid \<notin> set (map room_id (rooms c))"
    using that by (auto simp: find_None_iff)
  with assms show ?thesis by auto
qed

text \<open>
  C8 on the demo rooms: "demo-room-2" has two occupants and is full; no room is called
  "no-such-room".
\<close>

theorem joinRoom_rejects_witness:
  "isOfflineMode example_ctx
   \<and> joinRoom ''demo-room-2'' ''id-1'' 7 (example_ctx, new_service)
       = (PromiseRejected ''Room is full'', (example_ctx, new_service))
   \<and> joinRoom ''no-such-room'' ''id-1'' 7 (example_ctx, new_service)
       = (PromiseRejected ''Room not found'', (example_ctx, new_service))"
proof -
  have off: "isOfflineMode example_ctx"
    by (simp add: example_ctx_def)
  have full: "find (\<lambda>r. room_id r = ''demo-room-2'') (rooms example_ctx) = Some (demoRooms ! 1)
              \<and> 2 \<le> length (room_players (demoRooms ! 1))"
    by (simp add: example_ctx_def demoRooms_def)
  have missing: "''no-such-room'' \<notin> set (map room_id (rooms example_ctx))"
    by (simp add: example_ctx_def demoRooms_def)
  from joinRoom_rejects [OF off, of "''demo-room-2''" "demoRooms ! 1" "''id-1''" 7 new_service]
    joinRoom_rejects [OF off, of "''no-such-room''" "demoRooms ! 1" "''id-1''" 7 new_service]
    off full missing
  show ?thesis by blast
qed

text \<open>
  C7. After \<^verbatim>\<open>handleLogout\<close>, whatever the state was: local storage has no entry for the
  display name, the username is null, there is no current room and no game state, the room
  list and the message log are empty; also offline mode is off and the service holds no
  socket.
\<close>

theorem handleLogout_clears:
  "map_of (localStorage (snd (handleLogout (c, w)))) storage_key = None
   \<and> username (fst (handleLogout (c, w))) = None
   \<and> currentRoom (fst (handleLogout (c, w))) = None
   \<and> gameState (fst (handleLogout (c, w))) = None
   \<and> rooms (fst (handleLogout (c, w))) = []
   \<and> messages (fst (handleLogout (c, w))) = []
   \<and> isOfflineMode (fst (handleLogout (c, w))) = False
   \<and> socket (snd (handleLogout (c, w))) = None"
  by (simp add: delete_conv' disconnect_def split: option.splits)

text \<open>
  C7 for a user who logged in without a server, is in a room and logs out: the name that
  \<^verbatim>\<open>connect\<close> had stored is gone, and so is the session.
\<close>

theorem handleLogout_clears_witness:
  "map_of (localStorage offline_service) storage_key = Some ''ann''
   \<and> socket offline_service = Some 1
   \<and> map_of (localStorage (snd (handleLogout (example_ctx, offline_service)))) storage_key = None
   \<and> socket (snd (handleLogout (example_ctx, offline_service))) = None
   \<and> username (fst (handleLogout (example_ctx, offline_service))) = None
   \<and> currentRoom (fst (handleLogout (example_ctx, offline_service))) = None
   \<and> gameState (fst (handleLogout (example_ctx, offline_service))) = None
   \<and> rooms (fst (handleLogout (example_ctx, offline_service))) = []
   \<and> messages (fst (handleLogout (example_ctx, offline_service))) = []"
proof -
  have before: "map_of (localStorage offline_service) storage_key = Some ''ann''
                \<and> socket offline_service = Some 1"
    by (simp add: offline_service_def new_service_def connect_def socket_connected_def
        never_throws_def Let_def clearTimeout_def connectToFallback_def settle_def update_conv')
  from handleLogout_clears [of example_ctx offline_service] before
  show ?thesis by blast
qed

section \<open>The socket service\<close>

subsection \<open>Action methods without a socket\<close>

text \<open>
  C5 (amended). When the service holds no socket, no action method emits anything or
  changes the service. \<^verbatim>\<open>leaveRoom\<close>, \<^verbatim>\<open>makeMove\<close>, \<^verbatim>\<open>restartGame\<close> and \<^verbatim>\<open>sendMessage\<close>
  return; \<^verbatim>\<open>createRoom\<close>, \<^verbatim>\<open>joinRoom\<close> and \<^verbatim>\<open>joinRandomGame\<close> return a promise rejected
  with "Not connected".
\<close>

theorem socketService_not_connected:
  assumes "socket w = None"
  shows "socketService_createRoom roomName isPriv w = (PromiseRejected ''Not connected'', w)
       \<and> socketService_joinRoom roomId w = (PromiseRejected ''Not connected'', w)
       \<and> socketService_joinRandomGame w = (PromiseRejected ''Not connected'', w)
       \<and> socketService_leaveRoom w = (Returned, w)
       \<and> socketService_makeMove index w = (Returned, w)
       \<and> socketService_restartGame w = (Returned, w)
       \<and> socketService_sendMessage message w = (Returned, w)"
  using assms
  by (simp add: socketService_createRoom_def socketService_joinRoom_def
      socketService_joinRandomGame_def socketService_leaveRoom_def socketService_makeMove_def
      socketService_restartGame_def socketService_sendMessage_def)

text \<open>C5 (amended) on a new service, which has no socket.\<close>

theorem socketService_not_connected_witness:
  "socket new_service = None
   \<and> socketService_joinRoom ''demo-room-1'' new_service
       = (PromiseRejected ''Not connected'', new_service)
   \<and> socketService_makeMove 4 new_service = (Returned, new_service)
   \<and> socketService_sendMessage ''hello'' new_service = (Returned, new_service)"
  using socketService_not_connected [of new_service "''Test''" False "''demo-room-1''" 4 "''hello''"]
  by (simp add: new_service_def)

text \<open>
  C5 as stated fails: on a new service \<^verbatim>\<open>createRoom\<close> does fail, its promise is rejected.
\<close>

theorem createRoom_not_connected_counterexample:
  "socket new_service = None
   \<and> fst (socketService_createRoom ''Test'' False new_service) = PromiseRejected ''Not connected''"
  by (simp add: socketService_createRoom_def new_service_def)

subsection \<open>What settle, clearTimeout and connectToFallback leave alone\<close>

lemma settle_simps:
  "ioCalls (settle k p v) = ioCalls v"
  "socks (settle k p v) = socks v"
  "socket (settle k p v) = socket v"
  "reconnectAttempts (settle k p v) = reconnectAttempts v"
  "localStorage (settle k p v) = localStorage v"
  "length (calls (settle k p v)) = length (calls v)"
  "connectTimeout (calls (settle k p v) ! j) = connectTimeout (calls v ! j)"
  by (auto simp: settle_def nth_list_update)

lemma settle_promise:
  "promise (calls (settle k p v) ! j) =
     (if j = k \<and> k < length (calls v) \<and> promise (calls v ! k) = Pending then p
      else promise (calls v ! j))"
  by (auto simp: settle_def nth_list_update)

lemma clearTimeout_simps:
  "ioCalls (clearTimeout k v) = ioCalls v"
  "socks (clearTimeout k v) = socks v"
  "socket (clearTimeout k v) = socket v"
  "reconnectAttempts (clearTimeout k v) = reconnectAttempts v"
  "localStorage (clearTimeout k v) = localStorage v"
  "length (calls (clearTimeout k v)) = length (calls v)"
  "promise (calls (clearTimeout k v) ! j) = promise (calls v ! j)"
  by (auto simp: clearTimeout_def nth_list_update)

lemma clearTimeout_timer:
  "connectTimeout (calls (clearTimeout k v) ! j) =
     (if j = k \<and> k < length (calls v) then False else connectTimeout (calls v ! j))"
  by (auto simp: clearTimeout_def nth_list_update)

lemma connectToFallback_simps:
  "ioCalls (connectToFallback throws k v) = ioCalls v @ [(k, FALLBACK_URL)]"
  "length (calls (connectToFallback throws k v)) = length (calls v)"
  "length (socks v) \<le> length (socks (connectToFallback throws k v))"
  "localStorage (connectToFallback throws k v) = localStorage v"
  by (auto simp: connectToFallback_def Let_def settle_simps)

lemma io_since_settle: "io_since w (settle k p v) = io_since w v"
  by (simp add: io_since_def settle_simps)

lemma io_since_clearTimeout: "io_since w (clearTimeout k v) = io_since w v"
  by (simp add: io_since_def clearTimeout_simps)

lemma io_since_connectToFallback:
  "length (ioCalls w) \<le> length (ioCalls v) \<Longrightarrow>
     io_since w (connectToFallback throws k v) = io_since w v @ [FALLBACK_URL]"
  by (simp add: io_since_def connectToFallback_simps)

lemma urls_differ: "SOCKET_URL \<noteq> FALLBACK_URL"
  by (simp add: SOCKET_URL_def FALLBACK_URL_def)

subsection \<open>The invariant of a call of connect\<close>

lemma failover_inv_connect:
  assumes "strict \<longrightarrow> reconnectAttempts w = 0"
  shows "failover_inv strict w (connect throws u w)"
proof -
  have c: "socket_connected (w\<lparr>svc_username := Some u,
              localStorage := AList.update storage_key u (localStorage w)\<rparr>) = socket_connected w"
    by (simp add: socket_connected_def split: option.splits)
  show ?thesis
    using assms urls_differ
    by (cases "socket_connected w")
       (auto simp: failover_inv_def io_since_def connect_def Let_def nth_append c)
qed

lemma failover_inv_settle_True:
  "failover_inv strict w v \<Longrightarrow> failover_inv strict w (settle k (Resolved True) v)"
  by (auto simp: failover_inv_def settle_promise settle_simps io_since_settle)

lemma failover_inv_settle_False:
  "failover_inv strict w v \<Longrightarrow> strict \<longrightarrow> FALLBACK_URL \<in> set (io_since w v) \<Longrightarrow>
     failover_inv strict w (settle k (Resolved False) v)"
  by (auto simp: failover_inv_def settle_simps io_since_settle)

lemma failover_inv_clearTimeout:
  "failover_inv strict w v \<Longrightarrow> failover_inv strict w (clearTimeout k v)"
  by (auto simp: failover_inv_def clearTimeout_timer clearTimeout_simps io_since_clearTimeout)

lemma failover_inv_reset:
  assumes "failover_inv strict w v"
  shows "failover_inv strict w (v\<lparr>reconnectAttempts := 0\<rparr>)"
proof -
  have io: "io_since w (v\<lparr>reconnectAttempts := 0\<rparr>) = io_since w v"
    by (simp add: io_since_def)
  show ?thesis
    using assms unfolding failover_inv_def io by simp
qed

lemma failover_inv_set_connected:
  assumes "failover_inv strict w v"
  shows "failover_inv strict w (v\<lparr>socks := (socks v)[i := (socks v ! i)\<lparr>connected := b\<rparr>]\<rparr>)"
proof -
  define v1 where "v1 = v\<lparr>socks := (socks v)[i := (socks v ! i)\<lparr>connected := b\<rparr>]\<rparr>"
  have io: "io_since w v1 = io_since w v" by (simp add: io_since_def v1_def)
  have fb: "fallback (socks v1 ! j) = fallback (socks v ! j)" if "j < length (socks v)" for j
    using that by (cases "j = i") (simp_all add: v1_def)
  have facts: "length (socks v1) = length (socks v)" "calls v1 = calls v"
      "reconnectAttempts v1 = reconnectAttempts v" "ioCalls v1 = ioCalls v"
    by (simp_all add: v1_def)
  have "failover_inv strict w v1"
    using assms unfolding failover_inv_def io facts by (auto simp: fb)
  then show ?thesis by (simp add: v1_def)
qed

lemma failover_inv_nonempty:
  assumes "failover_inv strict w v" and "io_since w v \<noteq> []"
  shows "\<not> socket_connected w" and "\<exists>m. io_since w v = SOCKET_URL # replicate m FALLBACK_URL"
  using assms by (auto simp: failover_inv_def split: if_splits)

lemma failover_inv_connectToFallback:
  assumes "failover_inv strict w v" and "io_since w v \<noteq> []"
  shows "failover_inv strict w (connectToFallback throws k v)"
proof -
  from assms have len: "length (ioCalls w) \<le> length (ioCalls v)"
    and calls: "length (calls v) = Suc (length (calls w))"
    and socks: "length (socks w) \<le> length (socks v)"
    by (simp_all add: failover_inv_def)
  from failover_inv_nonempty [OF assms] obtain m
    where nc: "\<not> socket_connected w"
      and m: "io_since w v = SOCKET_URL # replicate m FALLBACK_URL"
    by blast
  have shape: "io_since w (connectToFallback throws k v)
                 = SOCKET_URL # replicate (Suc m) FALLBACK_URL"
    using m by (simp add: io_since_connectToFallback [OF len] replicate_append_same)
  have l1: "length (ioCalls w) \<le> length (ioCalls (connectToFallback throws k v))"
    using len by (simp add: connectToFallback_simps)
  have l3: "length (socks w) \<le> length (socks (connectToFallback throws k v))"
    using socks connectToFallback_simps(3) [of v throws k] by linarith
  show ?thesis
    unfolding failover_inv_def shape
    using l1 l3 calls nc
    by (simp add: connectToFallback_simps(2) del: replicate_Suc)
qed

lemma failover_inv_handle:
  assumes "failover_inv strict w v" and "own_event w e"
  shows "failover_inv strict w (handle throws v e)"
proof (cases e)
  case (Connect i)
  show ?thesis
  proof (cases "i < length (socks v)")
    case False
    with Connect assms show ?thesis by simp
  next
    case True
    have v1: "failover_inv strict w
                (v\<lparr>socks := (socks v)[i := (socks v ! i)\<lparr>connected := True\<rparr>]\<rparr>)"
      using assms(1) by (rule failover_inv_set_connected)
    show ?thesis
      using Connect True v1
      by (simp add: Let_def failover_inv_settle_True failover_inv_clearTimeout
          failover_inv_reset)
  qed
next
  case (ConnectError i)
  show ?thesis
  proof (cases "i < length (socks v)")
    case False
    with ConnectError assms show ?thesis by simp
  next
    case True
    from assms(2) ConnectError have own: "length (socks w) \<le> i" by simp
    with True assms(1) have ne: "io_since w v \<noteq> []" by (auto simp: failover_inv_def)
    show ?thesis
    proof (cases "fallback (socks v ! i)")
      case fb: True
      with own \<open>i < length (socks v)\<close> assms(1)
      have "strict \<longrightarrow> FALLBACK_URL \<in> set (io_since w v)"
        by (auto simp: failover_inv_def)
      with assms(1) ConnectError \<open>i < length (socks v)\<close> fb show ?thesis
        by (simp add: failover_inv_settle_False)
    next
      case nfb: False
      show ?thesis
      proof (cases "reconnectAttempts v = 0")
        case True
        with ConnectError \<open>i < length (socks v)\<close> nfb
        have "handle throws v e = connectToFallback throws (owner (socks v ! i))
                (clearTimeout (owner (socks v ! i)) v)"
          by (simp add: Let_def clearTimeout_simps)
        with assms(1) ne show ?thesis
          by (simp add: failover_inv_connectToFallback failover_inv_clearTimeout
              io_since_clearTimeout)
      next
        case False
        with assms(1) have f: "strict \<longrightarrow> FALLBACK_URL \<in> set (io_since w v)"
          by (auto simp: failover_inv_def)
        have c: "failover_inv strict w (clearTimeout (owner (socks v ! i)) v)"
          using assms(1) by (rule failover_inv_clearTimeout)
        from f have f': "strict \<longrightarrow> FALLBACK_URL
                           \<in> set (io_since w (clearTimeout (owner (socks v ! i)) v))"
          by (simp add: io_since_clearTimeout)
        from ConnectError \<open>i < length (socks v)\<close> nfb False
        have "handle throws v e = settle (owner (socks v ! i)) (Resolved False)
                (clearTimeout (owner (socks v ! i)) v)"
          by (simp add: Let_def clearTimeout_simps)
        with failover_inv_settle_False [OF c f'] show ?thesis by simp
      qed
    qed
  qed
next
  case (Disconnect i)
  with assms(1) show ?thesis
    by (simp add: failover_inv_set_connected)
next
  case (Timeout j)
  show ?thesis
  proof (cases "j < length (calls v) \<and> connectTimeout (calls v ! j)")
    case False
    with Timeout assms show ?thesis by auto
  next
    case True
    from assms Timeout True have "j = length (calls w)" by (simp add: failover_inv_def)
    with True assms(1) have ne: "io_since w v \<noteq> []" by (auto simp: failover_inv_def)
    have c: "failover_inv strict w (clearTimeout j v)"
      using assms(1) by (rule failover_inv_clearTimeout)
    from ne have ne': "io_since w (clearTimeout j v) \<noteq> []"
      by (simp add: io_since_clearTimeout)
    show ?thesis
      using Timeout True c failover_inv_connectToFallback [OF c ne']
      by (simp add: Let_def clearTimeout_simps split: option.splits)
  qed
qed

lemma failover_inv_run:
  "failover_inv strict w v \<Longrightarrow> \<forall>e \<in> set es. own_event w e \<Longrightarrow>
     failover_inv strict w (run throws v es)"
  by (induction es arbitrary: v) (simp_all add: failover_inv_handle)

lemma fallback_only_on_trigger:
  "ioCalls (handle throws v e) \<noteq> ioCalls v \<Longrightarrow> fallback_trigger v e"
  by (cases e)
     (auto simp: Let_def settle_simps clearTimeout_simps split: if_splits option.splits)

text \<open>
  What every call of \<^verbatim>\<open>connect\<close> keeps, whatever the counter \<open>reconnectAttempts\<close> is, over
  any sequence of events of the call (its own sockets, its timer): when a socket is
  connected already \<^verbatim>\<open>io\<close> is not called at all; otherwise \<^verbatim>\<open>io\<close> is called with the
  primary url first and after it only with the fallback url. And in any state, an event
  makes the service call \<^verbatim>\<open>io\<close> only when it is a \<^verbatim>\<open>connect_error\<close> of a socket that
  \<^verbatim>\<open>connect\<close> made or the firing of an armed timer.
\<close>

lemma connect_dials_in_order:
  assumes "\<forall>e \<in> set es. own_event w e"
  shows "(if socket_connected w then io_since w (run throws (connect throws u w) es) = []
          else (\<exists>m. io_since w (run throws (connect throws u w) es)
                       = SOCKET_URL # replicate m FALLBACK_URL))
       \<and> (\<forall>v e. ioCalls (handle throws v e) \<noteq> ioCalls v \<longrightarrow> fallback_trigger v e)"
proof -
  have "failover_inv False w (run throws (connect throws u w) es)"
    using assms by (intro failover_inv_run failover_inv_connect) simp_all
  then show ?thesis
    using fallback_only_on_trigger by (simp add: failover_inv_def)
qed

text \<open>
  What a call of \<^verbatim>\<open>connect\<close> made with the counter at 0 keeps in addition: when its promise
  is resolved to false, \<^verbatim>\<open>io\<close> has been called with the fallback url.
\<close>

lemma connect_exhausts_when_counter_zero:
  assumes "reconnectAttempts w = 0" and "\<forall>e \<in> set es. own_event w e"
    and "promise (calls (run throws (connect throws u w) es) ! length (calls w)) = Resolved False"
  shows "FALLBACK_URL \<in> set (io_since w (run throws (connect throws u w) es))"
proof -
  have "failover_inv True w (run throws (connect throws u w) es)"
    using assms(1,2) by (intro failover_inv_run failover_inv_connect) simp_all
  with assms(3) show ?thesis
    by (auto simp: failover_inv_def)
qed

text \<open>The equations that evaluate a concrete run of the service.\<close>

lemmas service_eval = new_service_def connect_def socket_connected_def never_throws_def
  Let_def clearTimeout_def connectToFallback_def settle_def disconnect_def

lemma failed_once_eval:
  "failed_once = \<lparr>socket = None, svc_username = None, reconnectAttempts = 1,
     socks = [\<lparr>url = SOCKET_URL, connected = False, owner = 0, fallback = False\<rparr>,
              \<lparr>url = FALLBACK_URL, connected = False, owner = 0, fallback = True\<rparr>],
     calls = [\<lparr>promise = Resolved False, connectTimeout = False\<rparr>],
     ioCalls = [(0, SOCKET_URL), (0, FALLBACK_URL)],
     localStorage = [(storage_key, ''bob'')], emitted = []\<rparr>"
  by (simp add: failed_once_def service_eval)

text \<open>
  C3. The property: \<^verbatim>\<open>connect\<close> tries the primary url, then the fallback url, going on
  only on an error or a timeout, and resolves to false only after both have been tried.
  The code breaks the last part. On a new service the counter is 0 and a \<^verbatim>\<open>connect_error\<close>
  of the primary socket makes the service try the fallback url. After one failed login
  and the logout that follows it the counter is 1, since only a successful connection
  resets it. The next \<^verbatim>\<open>connect\<close> makes the primary socket (socket 2, call 1): its
  \<^verbatim>\<open>connect_error\<close> resolves the promise to false at once, with \<^verbatim>\<open>io\<close> called on the
  primary url alone, whereas the firing of its timer, in the same state, does try the
  fallback url and leaves the promise pending.
\<close>

theorem connect_error_skips_fallback:
  "io_since new_service (run never_throws (connect never_throws ''bob'' new_service)
        [ConnectError 0]) = [SOCKET_URL, FALLBACK_URL]
   \<and> reconnectAttempts failed_once = 1
   \<and> socket failed_once = None
   \<and> promise (calls (run never_throws (connect never_throws ''bob'' failed_once)
        [ConnectError 2]) ! 1) = Resolved False
   \<and> io_since failed_once (run never_throws (connect never_throws ''bob'' failed_once)
        [ConnectError 2]) = [SOCKET_URL]
   \<and> promise (calls (run never_throws (connect never_throws ''bob'' failed_once)
        [Timeout 1]) ! 1) = Pending
   \<and> io_since failed_once (run never_throws (connect never_throws ''bob'' failed_once)
        [Timeout 1]) = [SOCKET_URL, FALLBACK_URL]"
proof -
  have fresh: "io_since new_service (run never_throws (connect never_throws ''bob'' new_service)
        [ConnectError 0]) = [SOCKET_URL, FALLBACK_URL]"
    by (simp add: service_eval io_since_def)
  have stale: "reconnectAttempts failed_once = 1 \<and> socket failed_once = None"
    by (simp add: failed_once_eval)
  have err: "promise (calls (run never_throws (connect never_throws ''bob'' failed_once)
        [ConnectError 2]) ! 1) = Resolved False
      \<and> io_since failed_once (run never_throws (connect never_throws ''bob'' failed_once)
        [ConnectError 2]) = [SOCKET_URL]"
    unfolding failed_once_eval by (simp add: service_eval io_since_def)
  have timer: "promise (calls (run never_throws (connect never_throws ''bob'' failed_once)
        [Timeout 1]) ! 1) = Pending
      \<and> io_since failed_once (run never_throws (connect never_throws ''bob'' failed_once)
        [Timeout 1]) = [SOCKET_URL, FALLBACK_URL]"
    unfolding failed_once_eval by (simp add: service_eval io_since_def)
  from fresh stale err timer show ?thesis by blast
qed

text \<open>
  The same test of the counter also cuts a first login short. The error path leaves the
  primary socket open; when it reports \<^verbatim>\<open>connect_error\<close> a second time the counter is 1,
  so the promise resolves to false while the fallback socket (socket 1) has neither
  connected nor failed, and a later \<^verbatim>\<open>connect\<close> event of the fallback socket cannot make
  it true.
\<close>

lemma connect_resolves_before_fallback_answers:
  "promise (calls (run never_throws (connect never_throws ''bob'' new_service)
        [ConnectError 0, ConnectError 0]) ! 0) = Resolved False
   \<and> socks (run never_throws (connect never_throws ''bob'' new_service)
        [ConnectError 0, ConnectError 0]) ! 1
       = \<lparr>url = FALLBACK_URL, connected = False, owner = 0, fallback = True\<rparr>
   \<and> promise (calls (run never_throws (connect never_throws ''bob'' new_service)
        [ConnectError 0, ConnectError 0, Connect 1]) ! 0) = Resolved False"
  by (simp add: service_eval)

subsection \<open>Rejection of the promise\<close>












subsection \<open>The stored display name\<close>

lemma handle_localStorage: "localStorage (handle throws v e) = localStorage v"
  by (cases e)
     (auto simp: Let_def connectToFallback_simps settle_simps clearTimeout_simps
        split: option.splits)

lemma run_localStorage: "localStorage (run throws v es) = localStorage v"
  by (induction es arbitrary: v) (simp_all add: handle_localStorage)

lemma connect_localStorage:
  "map_of (localStorage (connect throws u w)) storage_key = Some u"
  by (simp add: connect_def Let_def update_conv')

text \<open>
  C6 (amended). Every call of \<^verbatim>\<open>connect\<close> stores the display name in local storage, at
  its start and before any attempt: whatever events follow and whether the promise
  resolves to true, to false or is rejected, the name is stored. When the promise has
  resolved, to true or to false, the \<^verbatim>\<open>then\<close> of \<^verbatim>\<open>connectToServer\<close> stores the name
  again.
\<close>

theorem connect_always_stores_name:
  "map_of (localStorage (run throws (connect throws u w) es)) storage_key = Some u
   \<and> (k < length (calls v) \<and> promise (calls v ! k) = Resolved b \<longrightarrow>
        map_of (localStorage (snd (snd (connectToServer_settled u k (c, v))))) storage_key
          = Some u)"
  by (auto simp: run_localStorage connect_localStorage update_conv'
      socketService_getRoomList_def split: option.splits)

text \<open>
  C6 (amended) on a new service, whose storage is empty: after a connection that
  succeeded the name is stored, by \<^verbatim>\<open>connect\<close> and by the \<^verbatim>\<open>then\<close> of \<^verbatim>\<open>connectToServer\<close>.
\<close>

theorem connect_always_stores_name_witness:
  "map_of (localStorage new_service) storage_key = None
   \<and> promise (calls (run never_throws (connect never_throws ''bob'' new_service) [Connect 0]) ! 0)
       = Resolved True
   \<and> map_of (localStorage (run never_throws (connect never_throws ''bob'' new_service)
        [Connect 0])) storage_key = Some ''bob''
   \<and> map_of (localStorage (snd (snd (connectToServer_settled ''bob'' 0
        (initial_ctx, run never_throws (connect never_throws ''bob'' new_service) [Connect 0])))))
        storage_key = Some ''bob''"
proof -
  define v where "v = run never_throws (connect never_throws ''bob'' new_service) [Connect 0]"
  have p: "0 < length (calls v) \<and> promise (calls v ! 0) = Resolved True"
    by (simp add: v_def service_eval)
  have e: "map_of (localStorage new_service) storage_key = None"
    by (simp add: new_service_def)
  from connect_always_stores_name [of never_throws "''bob''" new_service "[Connect 0]" 0 v True
      initial_ctx] p e
  show ?thesis unfolding v_def by blast
qed

text \<open>
  C6 as stated fails: a call of \<^verbatim>\<open>connect\<close> that does not succeed stores the name too.
  On a new service, with both sockets reporting an error, the promise resolves to false
  and the name is in local storage.
\<close>

theorem failed_connect_stores_name_counterexample:
  "map_of (localStorage new_service) storage_key = None
   \<and> promise (calls (run never_throws (connect never_throws ''bob'' new_service)
        [ConnectError 0, ConnectError 1]) ! 0) = Resolved False
   \<and> map_of (localStorage (run never_throws (connect never_throws ''bob'' new_service)
        [ConnectError 0, ConnectError 1])) storage_key = Some ''bob''"
  by (simp add: service_eval)

end
